theory Spec2Isabelle
  imports Main
begin

section \<open>Python path set-up (app/frontend/utils/path\_setup.py)\<close>

text \<open>
  \<^verbatim>\<open>
  def add_project_root_to_path():
      current_dir = os.path.dirname(os.path.dirname(os.path.dirname(os.path.abspath(__file__))))
      if current_dir not in sys.path:
          sys.path.insert(0, current_dir)
  \<close>
  The directory is computed by \<open>os.path\<close> from the location of the module; it is the
  parameter \<open>current_dir\<close> here. \<open>sys.path\<close> is the list of search directories that the
  function mutates; the model returns the new list.
\<close>

definition add_project_root_to_path :: "string \<Rightarrow> string list \<Rightarrow> string list" where
  "add_project_root_to_path current_dir sys_path =
     (if current_dir \<notin> set sys_path then current_dir # sys_path else sys_path)"

section \<open>The document store (app/backend/vector\_store/chroma\_store.py)\<close>

text \<open>
  The class \<open>ChromaDocStore\<close> wraps a chromadb collection. Its methods
  \<open>add_documents\<close>, \<open>similarity_search\<close>, \<open>delete_documents\<close>, \<open>get_document\<close> and
  \<open>update_document\<close> are modelled by their bodies, each a \<open>try\<close> block with the same
  handler. The decorators on them (\<open>error_tracker.handle_exception\<close>,
  \<open>performance_monitor.log_execution_time\<close>) and \<open>CliLogger\<close> come from \<open>app.utils\<close>,
  which is not among the source files; the decorators are left out and a call of
  \<open>CliLogger\<close> or \<open>logger\<close> is a line appended to the log.
\<close>

subsection \<open>Text of numbers inside f-strings\<close>

text \<open>
  \<open>f"doc_{i}_..."\<close> and \<open>f"Added {len(documents)} documents"\<close> render a Python int in
  decimal: \<open>str_nat\<close> for the non-negative ones, \<open>str_int\<close> with the sign.
\<close>

definition digit_char :: "nat \<Rightarrow> char" where
  "digit_char d = ''0123456789'' ! d"

fun str_nat :: "nat \<Rightarrow> string" where
  "str_nat n = (if n < 10 then [digit_char n] else str_nat (n div 10) @ [digit_char (n mod 10)])"

declare str_nat.simps [simp del]

definition str_int :: "int \<Rightarrow> string" where
  "str_int i = (if i < 0 then CHR ''-'' # str_nat (nat (- i)) else str_nat (nat i))"

subsection \<open>Data\<close>

text \<open>
  A metadata dictionary maps string keys to scalar values; the store only builds
  single-key dictionaries (\<open>{"timestamp": ...}\<close>, \<open>{"updated_at": ...}\<close>) and hands the
  caller's dictionaries on untouched. It is an association list of key and value text.
\<close>

type_synonym metadata = "(string \<times> string) list"

text \<open>
  The dictionary returned by \<open>collection.query\<close>: one outer list per query text. An
  answer carries no distances in one of two ways: the key \<open>'distances'\<close> is missing
  (\<open>None\<close> here), which is what the source tests with \<open>'distances' in results\<close>, or
  the key is there and holds Python's \<open>None\<close> (\<open>Some None\<close> here), which is how the
  chromadb library reports a field it was not asked to include. \<open>Some (Some dss)\<close> is
  the key holding the lists. Distances are values the store never computes with: \<open>'d\<close>.
\<close>

record 'd query_result =
  qr_ids :: "string list list"
  qr_documents :: "string list list"
  qr_metadatas :: "metadata list list"
  qr_distances :: "'d list list option option"

text \<open>The dictionary returned by \<open>collection.get\<close>: flat parallel lists.\<close>

record get_result =
  gr_ids :: "string list"
  gr_documents :: "string list"
  gr_metadatas :: "metadata list"

text \<open>
  \<open>self.collection\<close> is an object of the chromadb library. Its five methods that the
  store calls are the fields of \<open>engine\<close>, over a state \<open>'e\<close> of the collection and the
  exceptions \<open>'x\<close> it raises. A writing method returns the exception it raised, if any,
  and the state it left; a reading method returns the exception or the result.
\<close>

record ('e, 'x, 'd) engine =
  collection_add :: "'e \<Rightarrow> string list \<Rightarrow> metadata list \<Rightarrow> string list \<Rightarrow> 'x option \<times> 'e"
  collection_query :: "'e \<Rightarrow> string list \<Rightarrow> int \<Rightarrow> metadata option \<Rightarrow> 'x + 'd query_result"
  collection_delete :: "'e \<Rightarrow> string list \<Rightarrow> 'x option \<times> 'e"
  collection_get :: "'e \<Rightarrow> string list \<Rightarrow> 'x + get_result"
  collection_update :: "'e \<Rightarrow> string list \<Rightarrow> string list \<Rightarrow> metadata list \<Rightarrow> 'x option \<times> 'e"

text \<open>
  What a method of the store can raise: an exception of the engine, handed on, the
  \<open>IndexError\<close> of a list subscript out of range, or the \<open>TypeError\<close> of a subscript
  applied to \<open>None\<close>.
\<close>

datatype 'x error = EngineError 'x | IndexError | TypeError

text \<open>The calls made on \<open>self.collection\<close>, with their keyword arguments in source order.\<close>

datatype call =
    Call_add "string list" "metadata list" "string list"
  | Call_query "string list" int "metadata option"
  | Call_delete "string list"
  | Call_get "string list"
  | Call_update "string list" "string list" "metadata list"

text \<open>
  The lines written by \<open>CliLogger\<close> (message, context, details with their values as text)
  and by \<open>logger\<close>. An error line keeps the message up to \<open>{str(e)}\<close> and the exception
  itself; \<open>CliLogger.error\<close> is also called once without an exception.
\<close>

datatype 'x log_entry =
    CliLogger_info string string "(string \<times> string) list"
  | CliLogger_success string string "(string \<times> string) list"
  | CliLogger_error string "'x error option" string
  | Logger_info string
  | Logger_error string "'x error"

text \<open>
  \<open>datetime.utcnow()\<close> is read once per generated id and once per default metadata
  dictionary. The clock gives, for the n-th read since the start, the text of
  \<open>.timestamp()\<close> as the f-string prints it and the text of \<open>.isoformat()\<close>.
\<close>

record clock =
  timestamp :: "nat \<Rightarrow> string"
  isoformat :: "nat \<Rightarrow> string"

text \<open>
  The state a method runs in: the collection, the calls made on it so far, the log
  lines written so far and the number of clock reads so far.
\<close>

record ('e, 'x) store =
  collection_state :: 'e
  calls :: "call list"
  logs :: "'x log_entry list"
  clock_reads :: nat

text \<open>An entry of the list returned by \<open>similarity_search\<close>, and the dictionary of
  \<open>get_document\<close>.\<close>

record 'd hit =
  hit_id :: string
  hit_document :: string
  hit_metadata :: metadata
  hit_distance :: "'d option"

record document_record =
  rec_id :: string
  rec_document :: string
  rec_metadata :: metadata

subsection \<open>Helpers\<close>

definition write_log :: "'x log_entry \<Rightarrow> ('e, 'x) store \<Rightarrow> ('e, 'x) store" where
  "write_log l st = st\<lparr>logs := logs st @ [l]\<rparr>"

definition record_call :: "call \<Rightarrow> ('e, 'x) store \<Rightarrow> ('e, 'x) store" where
  "record_call c st = st\<lparr>calls := calls st @ [c]\<rparr>"

text \<open>
  The handler shared by the five methods:
  \<^verbatim>\<open>
  except Exception as e:
      CliLogger.error(f"...: {str(e)}")
      logger.error(f"...: {str(e)}")
      raise
  \<close>
\<close>

definition reraise :: "string \<Rightarrow> string \<Rightarrow> 'x error \<Rightarrow> ('e, 'x) store \<Rightarrow> ('x error + 'a) \<times> ('e, 'x) store" where
  "reraise cli_message logger_message e st =
     (Inl e, write_log (Logger_error logger_message e)
               (write_log (CliLogger_error cli_message (Some e) '''') st))"

text \<open>A list subscript \<open>xs[i]\<close> with \<open>i\<close> not negative.\<close>

definition subscript :: "'a list \<Rightarrow> nat \<Rightarrow> 'x error + 'a" where
  "subscript xs i = (if i < length xs then Inr (xs ! i) else Inl IndexError)"

definition and_then :: "'x error + 'a \<Rightarrow> ('a \<Rightarrow> 'x error + 'b) \<Rightarrow> 'x error + 'b" where
  "and_then r f = (case r of Inl e \<Rightarrow> Inl e | Inr v \<Rightarrow> f v)"

subsection \<open>add\_documents\<close>

text \<open>
  \<^verbatim>\<open>
  if ids is None:
      ids = [f"doc_{i}_{datetime.utcnow().timestamp()}" for i in range(len(documents))]
  if metadatas is None:
      metadatas = [{"timestamp": datetime.utcnow().isoformat()} for _ in documents]
  self.collection.add(documents=documents, metadatas=metadatas, ids=ids)
  ...
  return ids
  \<close>
\<close>

definition generated_id :: "clock \<Rightarrow> nat \<Rightarrow> nat \<Rightarrow> string" where
  "generated_id clk reads i = ''doc_'' @ str_nat i @ ''_'' @ timestamp clk (reads + i)"

definition generated_ids :: "clock \<Rightarrow> nat \<Rightarrow> nat \<Rightarrow> string list" where
  "generated_ids clk reads n = map (generated_id clk reads) [0..<n]"

definition default_metadatas :: "clock \<Rightarrow> nat \<Rightarrow> nat \<Rightarrow> metadata list" where
  "default_metadatas clk reads n = map (\<lambda>j. [(''timestamp'', isoformat clk (reads + j))]) [0..<n]"

definition resolve_ids ::
  "clock \<Rightarrow> string list \<Rightarrow> string list option \<Rightarrow> ('e, 'x) store \<Rightarrow> string list \<times> ('e, 'x) store" where
  "resolve_ids clk documents ids st =
     (case ids of
        None \<Rightarrow> (generated_ids clk (clock_reads st) (length documents),
                 st\<lparr>clock_reads := clock_reads st + length documents\<rparr>)
      | Some given \<Rightarrow> (given, st))"

definition resolve_metadatas ::
  "clock \<Rightarrow> string list \<Rightarrow> metadata list option \<Rightarrow> ('e, 'x) store \<Rightarrow> metadata list \<times> ('e, 'x) store" where
  "resolve_metadatas clk documents metadatas st =
     (case metadatas of
        None \<Rightarrow> (default_metadatas clk (clock_reads st) (length documents),
                 st\<lparr>clock_reads := clock_reads st + length documents\<rparr>)
      | Some given \<Rightarrow> (given, st))"

definition add_documents ::
  "('e, 'x, 'd) engine \<Rightarrow> clock \<Rightarrow> ('e, 'x) store \<Rightarrow> string list \<Rightarrow> metadata list option
     \<Rightarrow> string list option \<Rightarrow> ('x error + string list) \<times> ('e, 'x) store" where
  "add_documents eng clk st documents metadatas ids =
     (let st1 = write_log (CliLogger_info ''Adding documents to vector store...'' ''upload''
                   [(''doc_count'', str_nat (length documents))]) st;
          (ids', st2) = resolve_ids clk documents ids st1;
          (metadatas', st3) = resolve_metadatas clk documents metadatas st2;
          (raised, c') = collection_add eng (collection_state st3) documents metadatas' ids';
          st4 = record_call (Call_add documents metadatas' ids') (st3\<lparr>collection_state := c'\<rparr>)
      in case raised of
           Some x \<Rightarrow> reraise ''Error adding documents: '' ''Error adding documents to ChromaDB: ''
                       (EngineError x) st4
         | None \<Rightarrow>
             (Inr ids',
              write_log (Logger_info (''Added '' @ str_nat (length documents) @ '' documents to ChromaDB''))
                (write_log (CliLogger_success ''Documents added successfully!'' ''upload'' []) st4)))"

subsection \<open>similarity\_search\<close>

text \<open>
  \<^verbatim>\<open>
  results = self.collection.query(query_texts=[query], n_results=n_results, where=metadata_filter)
  CliLogger.success("Search completed", context='search',
                    details={"results_found": len(results['ids'][0])})
  logger.info(f"Performed similarity search for query: {query}")
  formatted_results = []
  for i in range(len(results['ids'][0])):
      formatted_results.append({
          'id': results['ids'][0][i],
          'document': results['documents'][0][i],
          'metadata': results['metadatas'][0][i],
          'distance': results['distances'][0][i] if 'distances' in results else None
      })
  return formatted_results
  \<close>
  Every subscript is checked: one that is out of range raises \<open>IndexError\<close> inside the
  \<open>try\<close>, so the handler logs it and raises it again. The conditional of the last field
  looks for the key only: when the key holds \<open>None\<close>, \<open>results['distances'][0]\<close> is
  evaluated and raises \<open>TypeError\<close>.
\<close>

definition format_distance :: "'d query_result \<Rightarrow> nat \<Rightarrow> 'x error + 'd option" where
  "format_distance results i =
     (case qr_distances results of
        None \<Rightarrow> Inr None
      | Some None \<Rightarrow> Inl TypeError
      | Some (Some dss) \<Rightarrow>
          and_then (subscript dss 0) (\<lambda>ds. and_then (subscript ds i) (\<lambda>d. Inr (Some d))))"

definition format_entry :: "'d query_result \<Rightarrow> nat \<Rightarrow> 'x error + 'd hit" where
  "format_entry results i =
     and_then (subscript (qr_ids results) 0) (\<lambda>ids0. and_then (subscript ids0 i) (\<lambda>the_id.
     and_then (subscript (qr_documents results) 0) (\<lambda>docs0. and_then (subscript docs0 i) (\<lambda>the_document.
     and_then (subscript (qr_metadatas results) 0) (\<lambda>metas0. and_then (subscript metas0 i) (\<lambda>the_metadata.
     and_then (format_distance results i) (\<lambda>the_distance.
       Inr \<lparr>hit_id = the_id, hit_document = the_document, hit_metadata = the_metadata,
            hit_distance = the_distance\<rparr>)))))))"

text \<open>The \<open>for\<close> loop over \<open>range(len(results['ids'][0]))\<close>, appending to
  \<open>formatted_results\<close>.\<close>

fun format_results :: "'d query_result \<Rightarrow> nat list \<Rightarrow> 'd hit list \<Rightarrow> 'x error + 'd hit list" where
  "format_results results [] formatted_results = Inr formatted_results"
| "format_results results (i # rest) formatted_results =
     (case format_entry results i of
        Inl e \<Rightarrow> Inl e
      | Inr entry \<Rightarrow> format_results results rest (formatted_results @ [entry]))"

definition similarity_search ::
  "('e, 'x, 'd) engine \<Rightarrow> ('e, 'x) store \<Rightarrow> string \<Rightarrow> int \<Rightarrow> metadata option
     \<Rightarrow> ('x error + 'd hit list) \<times> ('e, 'x) store" where
  "similarity_search eng st query n_results metadata_filter =
     (let st1 = write_log (CliLogger_info ''Performing similarity search...'' ''search''
                   [(''query'', query), (''n_results'', str_int n_results)]) st;
          st2 = record_call (Call_query [query] n_results metadata_filter) st1
      in case collection_query eng (collection_state st2) [query] n_results metadata_filter of
           Inl x \<Rightarrow> reraise ''Error performing similarity search: ''
                      ''Error performing similarity search: '' (EngineError x) st2
         | Inr results \<Rightarrow>
             (case subscript (qr_ids results) 0 of
                Inl e \<Rightarrow> reraise ''Error performing similarity search: ''
                           ''Error performing similarity search: '' e st2
              | Inr ids0 \<Rightarrow>
                  (let st3 = write_log (CliLogger_success ''Search completed'' ''search''
                                [(''results_found'', str_nat (length ids0))]) st2;
                       st4 = write_log (Logger_info (''Performed similarity search for query: '' @ query)) st3
                   in case format_results results [0..<length ids0] [] of
                        Inl e \<Rightarrow> reraise ''Error performing similarity search: ''
                                   ''Error performing similarity search: '' e st4
                      | Inr formatted_results \<Rightarrow> (Inr formatted_results, st4))))"

subsection \<open>delete\_documents\<close>

text \<open>
  \<^verbatim>\<open>
  self.collection.delete(ids=ids)
  CliLogger.success("Documents deleted successfully!", context='delete')
  logger.info(f"Deleted {len(ids)} documents from ChromaDB")
  \<close>
\<close>

definition delete_documents ::
  "('e, 'x, 'd) engine \<Rightarrow> ('e, 'x) store \<Rightarrow> string list \<Rightarrow> ('x error + unit) \<times> ('e, 'x) store" where
  "delete_documents eng st ids =
     (let st1 = write_log (CliLogger_info ''Deleting documents from vector store...'' ''delete''
                   [(''doc_count'', str_nat (length ids))]) st;
          (raised, c') = collection_delete eng (collection_state st1) ids;
          st2 = record_call (Call_delete ids) (st1\<lparr>collection_state := c'\<rparr>)
      in case raised of
           Some x \<Rightarrow> reraise ''Error deleting documents: '' ''Error deleting documents: ''
                       (EngineError x) st2
         | None \<Rightarrow>
             (Inr (),
              write_log (Logger_info (''Deleted '' @ str_nat (length ids) @ '' documents from ChromaDB''))
                (write_log (CliLogger_success ''Documents deleted successfully!'' ''delete'' []) st2)))"

subsection \<open>get\_document\<close>

text \<open>
  \<^verbatim>\<open>
  result = self.collection.get(ids=[doc_id])
  if result['ids']:
      CliLogger.success("Document retrieved successfully!", context='retrieve')
      return {'id': result['ids'][0], 'document': result['documents'][0],
              'metadata': result['metadatas'][0]}
  CliLogger.error("Document not found", context='retrieve')
  return None
  \<close>
\<close>

definition found_record :: "get_result \<Rightarrow> 'x error + document_record" where
  "found_record result =
     and_then (subscript (gr_ids result) 0) (\<lambda>the_id.
     and_then (subscript (gr_documents result) 0) (\<lambda>the_document.
     and_then (subscript (gr_metadatas result) 0) (\<lambda>the_metadata.
       Inr \<lparr>rec_id = the_id, rec_document = the_document, rec_metadata = the_metadata\<rparr>)))"

definition get_document ::
  "('e, 'x, 'd) engine \<Rightarrow> ('e, 'x) store \<Rightarrow> string
     \<Rightarrow> ('x error + document_record option) \<times> ('e, 'x) store" where
  "get_document eng st doc_id =
     (let st1 = write_log (CliLogger_info ''Retrieving document from vector store...'' ''retrieve''
                   [(''doc_id'', doc_id)]) st;
          st2 = record_call (Call_get [doc_id]) st1
      in case collection_get eng (collection_state st2) [doc_id] of
           Inl x \<Rightarrow> reraise ''Error retrieving document: ''
                      (''Error retrieving document '' @ doc_id @ '': '') (EngineError x) st2
         | Inr result \<Rightarrow>
             (if gr_ids result \<noteq> [] then
                (let st3 = write_log (CliLogger_success ''Document retrieved successfully!''
                              ''retrieve'' []) st2
                 in case found_record result of
                      Inl e \<Rightarrow> reraise ''Error retrieving document: ''
                                 (''Error retrieving document '' @ doc_id @ '': '') e st3
                    | Inr r \<Rightarrow> (Inr (Some r), st3))
              else (Inr None, write_log (CliLogger_error ''Document not found'' None ''retrieve'') st2)))"

subsection \<open>update\_document\<close>

text \<open>
  \<^verbatim>\<open>
  if metadata is None:
      metadata = {"updated_at": datetime.utcnow().isoformat()}
  self.collection.update(ids=[doc_id], documents=[document], metadatas=[metadata])
  CliLogger.success("Document updated successfully!", context='update')
  logger.info(f"Updated document {doc_id}")
  \<close>
\<close>

definition resolve_metadata ::
  "clock \<Rightarrow> metadata option \<Rightarrow> ('e, 'x) store \<Rightarrow> metadata \<times> ('e, 'x) store" where
  "resolve_metadata clk metadata st =
     (case metadata of
        None \<Rightarrow> ([(''updated_at'', isoformat clk (clock_reads st))],
                 st\<lparr>clock_reads := clock_reads st + 1\<rparr>)
      | Some given \<Rightarrow> (given, st))"

definition update_document ::
  "('e, 'x, 'd) engine \<Rightarrow> clock \<Rightarrow> ('e, 'x) store \<Rightarrow> string \<Rightarrow> string \<Rightarrow> metadata option
     \<Rightarrow> ('x error + unit) \<times> ('e, 'x) store" where
  "update_document eng clk st doc_id document metadata =
     (let st1 = write_log (CliLogger_info ''Updating document in vector store...'' ''update''
                   [(''doc_id'', doc_id)]) st;
          (metadata', st2) = resolve_metadata clk metadata st1;
          (raised, c') = collection_update eng (collection_state st2) [doc_id] [document] [metadata'];
          st3 = record_call (Call_update [doc_id] [document] [metadata']) (st2\<lparr>collection_state := c'\<rparr>)
      in case raised of
           Some x \<Rightarrow> reraise ''Error updating document: ''
                       (''Error updating document '' @ doc_id @ '': '') (EngineError x) st3
         | None \<Rightarrow>
             (Inr (),
              write_log (Logger_info (''Updated document '' @ doc_id))
                (write_log (CliLogger_success ''Document updated successfully!'' ''update'' []) st3)))"

subsection \<open>Engines to run the store on\<close>

text \<open>
  The theorems below hold for every engine. To apply them to concrete calls, three
  engines are defined: one that answers every query and every lookup with a fixed
  result, one whose every method raises, and one that keeps its rows (id, text,
  metadata) in a list in insertion order.
\<close>

definition canned_engine :: "'d query_result \<Rightarrow> get_result \<Rightarrow> (unit, string, 'd) engine" where
  "canned_engine answer found =
     \<lparr>collection_add = (\<lambda>c documents metadatas ids. (None, c)),
      collection_query = (\<lambda>c query_texts n_results wh. Inr answer),
      collection_delete = (\<lambda>c ids. (None, c)),
      collection_get = (\<lambda>c ids. Inr found),
      collection_update = (\<lambda>c ids documents metadatas. (None, c))\<rparr>"

definition failing_engine :: "'x \<Rightarrow> (unit, 'x, 'd) engine" where
  "failing_engine x =
     \<lparr>collection_add = (\<lambda>c documents metadatas ids. (Some x, c)),
      collection_query = (\<lambda>c query_texts n_results wh. Inl x),
      collection_delete = (\<lambda>c ids. (Some x, c)),
      collection_get = (\<lambda>c ids. Inl x),
      collection_update = (\<lambda>c ids documents metadatas. (Some x, c))\<rparr>"

type_synonym row = "string \<times> string \<times> metadata"

definition row_matches :: "metadata option \<Rightarrow> row \<Rightarrow> bool" where
  "row_matches wh r =
     (case wh of None \<Rightarrow> True
      | Some cond \<Rightarrow> list_all (\<lambda>(k, v). map_of (snd (snd r)) k = Some v) cond)"

definition answer_of_rows :: "row list \<Rightarrow> 'd query_result" where
  "answer_of_rows rows =
     \<lparr>qr_ids = [map fst rows], qr_documents = [map (\<lambda>r. fst (snd r)) rows],
      qr_metadatas = [map (\<lambda>r. snd (snd r)) rows], qr_distances = None\<rparr>"

definition table_add :: "row list \<Rightarrow> string list \<Rightarrow> metadata list \<Rightarrow> string list \<Rightarrow> string option \<times> row list" where
  "table_add c documents metadatas ids =
     (if length documents = length ids \<and> length metadatas = length ids
      then (None, c @ zip ids (zip documents metadatas))
      else (Some ''unequal lengths'', c))"

definition table_query :: "row list \<Rightarrow> string list \<Rightarrow> int \<Rightarrow> metadata option \<Rightarrow> string + 'd query_result" where
  "table_query c query_texts n_results wh =
     Inr (answer_of_rows (take (nat n_results) (filter (row_matches wh) c)))"

definition table_delete :: "row list \<Rightarrow> string list \<Rightarrow> string option \<times> row list" where
  "table_delete c ids = (None, filter (\<lambda>r. fst r \<notin> set ids) c)"

definition table_get :: "row list \<Rightarrow> string list \<Rightarrow> string + get_result" where
  "table_get c ids =
     (let rows = filter (\<lambda>r. fst r \<in> set ids) c
      in Inr \<lparr>gr_ids = map fst rows, gr_documents = map (\<lambda>r. fst (snd r)) rows,
              gr_metadatas = map (\<lambda>r. snd (snd r)) rows\<rparr>)"

text \<open>An update of a row either replaces its metadata or merges the new keys into it.\<close>

definition merge_metadata :: "metadata \<Rightarrow> metadata \<Rightarrow> metadata" where
  "merge_metadata old new =
     map (\<lambda>(k, v). case map_of new k of Some v' \<Rightarrow> (k, v') | None \<Rightarrow> (k, v)) old
       @ filter (\<lambda>(k, v). map_of old k = None) new"

definition update_row :: "bool \<Rightarrow> string \<times> string \<times> metadata \<Rightarrow> row \<Rightarrow> row" where
  "update_row merging u r =
     (if fst r = fst u
      then (fst r, fst (snd u),
            if merging then merge_metadata (snd (snd r)) (snd (snd u)) else snd (snd u))
      else r)"

definition table_update ::
  "bool \<Rightarrow> row list \<Rightarrow> string list \<Rightarrow> string list \<Rightarrow> metadata list \<Rightarrow> string option \<times> row list" where
  "table_update merging c ids documents metadatas =
     (if length documents = length ids \<and> length metadatas = length ids
      then (None, fold (\<lambda>u rows. map (update_row merging u) rows) (zip ids (zip documents metadatas)) c)
      else (Some ''unequal lengths'', c))"

definition table_engine :: "bool \<Rightarrow> (row list, string, 'd) engine" where
  "table_engine merging =
     \<lparr>collection_add = table_add, collection_query = table_query,
      collection_delete = table_delete, collection_get = table_get,
      collection_update = table_update merging\<rparr>"

definition fresh_store :: "'e \<Rightarrow> ('e, 'x) store" where
  "fresh_store c = \<lparr>collection_state = c, calls = [], logs = [], clock_reads = 0\<rparr>"

text \<open>A clock for concrete calls: the n-th read ends in the digits of \<open>n\<close>.\<close>

definition test_clock :: clock where
  "test_clock = \<lparr>timestamp = (\<lambda>n. ''1700000000.'' @ str_nat n),
                 isoformat = (\<lambda>n. ''2023-11-14T22:13:20.'' @ str_nat n)\<rparr>"

subsection \<open>The Vector Index Engine of the specification\<close>

text \<open>
  Modelled from the spec: the Vector Index Engine, the chromadb library behind
  \<open>self.collection\<close>, whose code is not among the source files. Section 2 of the
  specification describes it as a store of (id, vector, text, metadata) tuples with
  insert, similarity query (top-k with an optional metadata filter), point lookup by id,
  delete by id and in-place update; sections 3 and 4.3 order the answer to a query by
  ascending distance, ties in the engine's native order. The tuples are kept here in
  insertion order, which is the native order; the vector of a text and the metric are
  the function \<open>dist\<close>, the distance of a stored text from a query text.

  \<open>nearest_rows\<close> are the tuples that answer one query text: those that satisfy the
  filter, nearest first (the sort is stable), at most \<open>k\<close> of them.
\<close>

definition nearest_rows ::
  "(string \<Rightarrow> string \<Rightarrow> 'd::linorder) \<Rightarrow> row list \<Rightarrow> string \<Rightarrow> int \<Rightarrow> metadata option \<Rightarrow> row list" where
  "nearest_rows dist c q k wh =
     take (nat k) (sort_key (\<lambda>r. dist q (fst (snd r))) (filter (row_matches wh) c))"

text \<open>
  Modelled from the spec: \<open>query\<close> of section 6, which answers with the parallel
  sequences ids, texts, metadatas and distances, one outer sequence per query text.
\<close>

definition index_query ::
  "(string \<Rightarrow> string \<Rightarrow> 'd::linorder) \<Rightarrow> row list \<Rightarrow> string list \<Rightarrow> int \<Rightarrow> metadata option
     \<Rightarrow> string + 'd query_result" where
  "index_query dist c query_texts n_results wh =
     Inr \<lparr>qr_ids = map (\<lambda>q. map fst (nearest_rows dist c q n_results wh)) query_texts,
          qr_documents = map (\<lambda>q. map (\<lambda>r. fst (snd r)) (nearest_rows dist c q n_results wh)) query_texts,
          qr_metadatas = map (\<lambda>q. map (\<lambda>r. snd (snd r)) (nearest_rows dist c q n_results wh)) query_texts,
          qr_distances = Some (Some (map (\<lambda>q. map (\<lambda>r. dist q (fst (snd r)))
                                                  (nearest_rows dist c q n_results wh)) query_texts))\<rparr>"

text \<open>
  Modelled from the spec: \<open>delete\<close> of sections 2, 4.6 and 6, which removes the tuples
  of the given ids; an id that is not stored fails nothing.
\<close>

definition index_delete :: "row list \<Rightarrow> string list \<Rightarrow> string option \<times> row list" where
  "index_delete c ids = (None, filter (\<lambda>r. fst r \<notin> set ids) c)"

text \<open>
  Modelled from the spec: \<open>get\<close> of sections 2 and 6, the point lookup, which answers
  with the stored tuples of the given ids as parallel sequences.
\<close>

definition index_get :: "row list \<Rightarrow> string list \<Rightarrow> string + get_result" where
  "index_get c ids =
     Inr \<lparr>gr_ids = map fst (filter (\<lambda>r. fst r \<in> set ids) c),
          gr_documents = map (\<lambda>r. fst (snd r)) (filter (\<lambda>r. fst r \<in> set ids) c),
          gr_metadatas = map (\<lambda>r. snd (snd r)) (filter (\<lambda>r. fst r \<in> set ids) c)\<rparr>"

text \<open>
  Modelled from the spec: the engine as a whole. Insert and in-place update (section 6)
  are those of the list-backed engine above, the update replacing text and metadata as
  section 3 words it.
\<close>

definition index_engine :: "(string \<Rightarrow> string \<Rightarrow> 'd::linorder) \<Rightarrow> (row list, string, 'd) engine" where
  "index_engine dist =
     \<lparr>collection_add = table_add, collection_query = index_query dist,
      collection_delete = index_delete, collection_get = index_get,
      collection_update = table_update False\<rparr>"

text \<open>A distance to run the engine with: the difference of the lengths of the texts.\<close>

definition text_distance :: "string \<Rightarrow> string \<Rightarrow> nat" where
  "text_distance q t = (if length q \<le> length t then length t - length q else length q - length t)"

subsection \<open>Notions used to state the properties\<close>

text \<open>The value of a decimal text, to read back what \<open>str_nat\<close> printed.\<close>

definition digit_value :: "char \<Rightarrow> nat" where
  "digit_value c = of_char c - 48"

definition decimal_value :: "string \<Rightarrow> nat" where
  "decimal_value s = foldl (\<lambda>acc c. 10 * acc + digit_value c) 0 s"

text \<open>
  The ids and the metadata dictionaries that \<open>add_documents\<close> hands to
  \<open>collection.add\<close>: the caller's when supplied, the generated ones otherwise (the ids
  are generated first, so the default dictionaries read the clock after them).
\<close>

definition ids_sent :: "clock \<Rightarrow> ('e, 'x) store \<Rightarrow> string list \<Rightarrow> string list option \<Rightarrow> string list" where
  "ids_sent clk st documents ids = fst (resolve_ids clk documents ids st)"

definition metadatas_sent ::
  "clock \<Rightarrow> ('e, 'x) store \<Rightarrow> string list \<Rightarrow> metadata list option \<Rightarrow> string list option \<Rightarrow> metadata list" where
  "metadatas_sent clk st documents metadatas ids =
     fst (resolve_metadatas clk documents metadatas (snd (resolve_ids clk documents ids st)))"

text \<open>
  The answer of \<open>collection.query\<close> to the single query text holds parallel sequences
  (the engine's contract): the first list of each key is there, and the documents, the
  metadata and, when supplied, the distances are as many as the ids.
\<close>

definition rows_parallel :: "'d query_result \<Rightarrow> bool" where
  "rows_parallel results =
     (qr_ids results \<noteq> [] \<and> qr_documents results \<noteq> [] \<and> qr_metadatas results \<noteq> []
      \<and> length (hd (qr_documents results)) = length (hd (qr_ids results))
      \<and> length (hd (qr_metadatas results)) = length (hd (qr_ids results))
      \<and> (case qr_distances results of
           Some (Some dss) \<Rightarrow> dss \<noteq> [] \<and> length (hd dss) = length (hd (qr_ids results))
         | _ \<Rightarrow> True))"

text \<open>The i-th row of such an answer, as an entry of the returned list.\<close>

definition row_at :: "'d query_result \<Rightarrow> nat \<Rightarrow> 'd hit" where
  "row_at results i =
     \<lparr>hit_id = hd (qr_ids results) ! i, hit_document = hd (qr_documents results) ! i,
      hit_metadata = hd (qr_metadatas results) ! i,
      hit_distance = (case qr_distances results of
                        Some (Some dss) \<Rightarrow> Some (hd dss ! i)
                      | _ \<Rightarrow> None)\<rparr>"

text \<open>
  The distances that the entries of a returned list carry, in list order, and the list
  being sorted by non-decreasing distance.
\<close>

fun distances_of :: "'d hit list \<Rightarrow> 'd list" where
  "distances_of [] = []"
| "distances_of (h # hs) =
     (case hit_distance h of None \<Rightarrow> distances_of hs | Some d \<Rightarrow> d # distances_of hs)"

definition sorted_by_distance :: "('d::linorder) hit list \<Rightarrow> bool" where
  "sorted_by_distance hits = sorted (distances_of hits)"

text \<open>The answer of \<open>collection.get\<close> holds parallel sequences (the engine's contract).\<close>

definition found_parallel :: "get_result \<Rightarrow> bool" where
  "found_parallel result =
     (length (gr_documents result) = length (gr_ids result)
      \<and> length (gr_metadatas result) = length (gr_ids result))"

section \<open>Properties of the path set-up\<close>

lemma add_project_root_present:
  "current_dir \<in> set (add_project_root_to_path current_dir sys_path)"
  by (simp add: add_project_root_to_path_def)

lemma add_project_root_count:
  "count_list (add_project_root_to_path current_dir sys_path) current_dir
     = max 1 (count_list sys_path current_dir)"
proof (cases "current_dir \<in> set sys_path")
  case True
  then have "count_list sys_path current_dir \<noteq> 0"
    by (simp add: count_list_0_iff)
  then have "0 < count_list sys_path current_dir"
    by simp
  with True show ?thesis
    by (simp add: add_project_root_to_path_def max_def)
next
  case False
  then have "count_list sys_path current_dir = 0"
    by (simp add: count_list_0_iff)
  with False show ?thesis
    by (simp add: add_project_root_to_path_def)
qed

text \<open>
  Claim C10. \<open>add_project_root_to_path\<close> is idempotent: a second call leaves \<open>sys.path\<close>
  as the first call left it. The directory is inserted (at the front) only when it is
  absent, an existing path that holds it is returned as it is, and the number of its
  occurrences after the call is the number before, or one when there was none: the call
  never adds a second occurrence.
\<close>

theorem add_project_root_to_path_idempotent:
  "add_project_root_to_path current_dir (add_project_root_to_path current_dir sys_path)
     = add_project_root_to_path current_dir sys_path
   \<and> add_project_root_to_path current_dir sys_path
     = (if current_dir \<in> set sys_path then sys_path else current_dir # sys_path)
   \<and> count_list (add_project_root_to_path current_dir sys_path) current_dir
     = max 1 (count_list sys_path current_dir)"
proof (intro conjI)
  show "add_project_root_to_path current_dir (add_project_root_to_path current_dir sys_path)
     = add_project_root_to_path current_dir sys_path"
    by (simp add: add_project_root_to_path_def)
  show "add_project_root_to_path current_dir sys_path
     = (if current_dir \<in> set sys_path then sys_path else current_dir # sys_path)"
    by (simp add: add_project_root_to_path_def)
  show "count_list (add_project_root_to_path current_dir sys_path) current_dir
     = max 1 (count_list sys_path current_dir)"
    by (rule add_project_root_count)
qed

theorem add_project_root_to_path_idempotent_witness:
  "add_project_root_to_path ''/srv/app''
      (add_project_root_to_path ''/srv/app'' [''/usr/lib/python3'', ''/srv''])
     = [''/srv/app'', ''/usr/lib/python3'', ''/srv'']
   \<and> count_list (add_project_root_to_path ''/srv/app'' [''/usr/lib/python3'', ''/srv''])
        ''/srv/app'' = 1"
  using add_project_root_to_path_idempotent [of "''/srv/app''" "[''/usr/lib/python3'', ''/srv'']"]
  by (simp add: add_project_root_to_path_def)

section \<open>Generated ids\<close>

lemma digit_char_less10:
  assumes "d < 10"
  shows "digit_char d \<in> set ''0123456789''"
proof -
  from assms have "d = 0 \<or> d = 1 \<or> d = 2 \<or> d = 3 \<or> d = 4 \<or> d = 5 \<or> d = 6 \<or> d = 7 \<or> d = 8 \<or> d = 9"
    by arith
  then show ?thesis
    by (auto simp: digit_char_def)
qed

lemma digit_value_digit_char:
  assumes "d < 10"
  shows "digit_value (digit_char d) = d"
proof -
  from assms have "d = 0 \<or> d = 1 \<or> d = 2 \<or> d = 3 \<or> d = 4 \<or> d = 5 \<or> d = 6 \<or> d = 7 \<or> d = 8 \<or> d = 9"
    by arith
  then show ?thesis
    by (auto simp: digit_char_def digit_value_def)
qed

lemma decimal_value_str_nat: "decimal_value (str_nat n) = n"
proof (induction n rule: str_nat.induct)
  case (1 n)
  show ?case
  proof (cases "n < 10")
    case True
    then show ?thesis
      by (subst str_nat.simps) (simp add: decimal_value_def digit_value_digit_char)
  next
    case False
    with 1 have "decimal_value (str_nat (n div 10)) = n div 10" by simp
    with False show ?thesis
      by (subst str_nat.simps) (simp add: decimal_value_def digit_value_digit_char)
  qed
qed

lemma str_nat_inj: "str_nat i = str_nat j \<Longrightarrow> i = j"
  by (metis decimal_value_str_nat)

lemma str_nat_digits: "set (str_nat n) \<subseteq> set ''0123456789''"
proof (induction n rule: str_nat.induct)
  case (1 n)
  show ?case
  proof (cases "n < 10")
    case True
    then show ?thesis
      using digit_char_less10 [of n] by (subst str_nat.simps) simp
  next
    case False
    with 1 have "set (str_nat (n div 10)) \<subseteq> set ''0123456789''" by simp
    moreover have "digit_char (n mod 10) \<in> set ''0123456789''"
      by (rule digit_char_less10) simp
    ultimately show ?thesis using False
      by (subst str_nat.simps) simp
  qed
qed

lemma str_nat_no_underscore: "c \<in> set (str_nat n) \<Longrightarrow> c \<noteq> CHR ''_''"
  using str_nat_digits [of n] by auto

lemma takeWhile_str_nat:
  "takeWhile (\<lambda>c. c \<noteq> CHR ''_'') (str_nat n @ ''_'' @ t) = str_nat n"
  by (simp add: takeWhile_tail str_nat_no_underscore)

lemma generated_id_inj:
  assumes "generated_id clk reads i = generated_id clk reads j"
  shows "i = j"
proof -
  from assms have "str_nat i @ ''_'' @ timestamp clk (reads + i) = str_nat j @ ''_'' @ timestamp clk (reads + j)"
    by (simp add: generated_id_def)
  then have "takeWhile (\<lambda>c. c \<noteq> CHR ''_'') (str_nat i @ ''_'' @ timestamp clk (reads + i))
      = takeWhile (\<lambda>c. c \<noteq> CHR ''_'') (str_nat j @ ''_'' @ timestamp clk (reads + j))"
    by simp
  then have "str_nat i = str_nat j"
    by (simp only: takeWhile_str_nat)
  then show ?thesis by (rule str_nat_inj)
qed

lemma distinct_generated_ids: "distinct (generated_ids clk reads n)"
  unfolding generated_ids_def
  by (simp add: distinct_map inj_on_def) (metis generated_id_inj)

lemma length_generated_ids: "length (generated_ids clk reads n) = n"
  by (simp add: generated_ids_def)

lemma nth_generated_ids: "i < n \<Longrightarrow> generated_ids clk reads n ! i = generated_id clk reads i"
  by (simp add: generated_ids_def)

section \<open>State and log bookkeeping\<close>

lemma write_log_fields [simp]:
  "calls (write_log l st) = calls st"
  "logs (write_log l st) = logs st @ [l]"
  "collection_state (write_log l st) = collection_state st"
  "clock_reads (write_log l st) = clock_reads st"
  by (simp_all add: write_log_def)

lemma record_call_fields [simp]:
  "calls (record_call c st) = calls st @ [c]"
  "logs (record_call c st) = logs st"
  "collection_state (record_call c st) = collection_state st"
  "clock_reads (record_call c st) = clock_reads st"
  by (simp_all add: record_call_def)

lemma reraise_fields [simp]:
  "fst (reraise a b e st) = Inl e"
  "calls (snd (reraise a b e st)) = calls st"
  "logs (snd (reraise a b e st)) = logs st @ [CliLogger_error a (Some e) '''', Logger_error b e]"
  "collection_state (snd (reraise a b e st)) = collection_state st"
  by (simp_all add: reraise_def)

lemma resolve_ids_fields [simp]:
  "calls (snd (resolve_ids clk documents ids st)) = calls st"
  "logs (snd (resolve_ids clk documents ids st)) = logs st"
  "collection_state (snd (resolve_ids clk documents ids st)) = collection_state st"
  by (simp_all add: resolve_ids_def split: option.splits)

lemma resolve_metadatas_fields [simp]:
  "calls (snd (resolve_metadatas clk documents metadatas st)) = calls st"
  "logs (snd (resolve_metadatas clk documents metadatas st)) = logs st"
  "collection_state (snd (resolve_metadatas clk documents metadatas st)) = collection_state st"
  by (simp_all add: resolve_metadatas_def split: option.splits)

lemmas add_documents_defs =
  add_documents_def Let_def split_beta resolve_ids_def resolve_metadatas_def
  ids_sent_def metadatas_sent_def write_log_def record_call_def reraise_def

lemma add_documents_calls:
  "calls (snd (add_documents eng clk st documents metadatas ids))
     = calls st @ [Call_add documents (metadatas_sent clk st documents metadatas ids)
                     (ids_sent clk st documents ids)]"
  by (cases ids; cases metadatas) (simp_all add: add_documents_defs split: option.splits)

lemma add_documents_result:
  "fst (add_documents eng clk st documents metadatas ids)
     = (case fst (collection_add eng (collection_state st) documents
                   (metadatas_sent clk st documents metadatas ids) (ids_sent clk st documents ids)) of
          None \<Rightarrow> Inr (ids_sent clk st documents ids)
        | Some x \<Rightarrow> Inl (EngineError x))"
  by (cases ids; cases metadatas) (simp_all add: add_documents_defs split: option.splits)

lemma add_documents_logs_failure:
  assumes "fst (collection_add eng (collection_state st) documents
                   (metadatas_sent clk st documents metadatas ids) (ids_sent clk st documents ids)) = Some x"
  shows "logs (snd (add_documents eng clk st documents metadatas ids))
     = logs st @ [CliLogger_info ''Adding documents to vector store...'' ''upload''
                   [(''doc_count'', str_nat (length documents))],
                  CliLogger_error ''Error adding documents: '' (Some (EngineError x)) '''',
                  Logger_error ''Error adding documents to ChromaDB: '' (EngineError x)]"
  using assms
  by (cases ids; cases metadatas) (simp_all add: add_documents_defs split: option.splits)


lemma ids_sent_simps [simp]:
  "ids_sent clk st documents (Some given) = given"
  "ids_sent clk st documents None = generated_ids clk (clock_reads st) (length documents)"
  by (simp_all add: ids_sent_def resolve_ids_def)

lemma metadatas_sent_simps [simp]:
  "metadatas_sent clk st documents (Some given) ids = given"
  "metadatas_sent clk st documents None (Some given_ids) = default_metadatas clk (clock_reads st) (length documents)"
  "metadatas_sent clk st documents None None
     = default_metadatas clk (clock_reads st + length documents) (length documents)"
  by (simp_all add: metadatas_sent_def resolve_metadatas_def resolve_ids_def)

section \<open>add\_documents\<close>




text \<open>
  Claim C3. With \<open>ids\<close> omitted and a batch that the engine accepts, \<open>add_documents\<close>
  returns the generated ids: as many as there are documents, pairwise distinct, the one
  at position \<open>i\<close> being \<open>doc_i_\<close> followed by the clock's timestamp at the i-th
  read, and it is this list that \<open>collection.add\<close> received next to the documents.
\<close>

theorem add_documents_generated_ids:
  assumes "fst (collection_add eng (collection_state st) documents
                  (metadatas_sent clk st documents metadatas None)
                  (generated_ids clk (clock_reads st) (length documents))) = None"
  shows "fst (add_documents eng clk st documents metadatas None)
           = Inr (generated_ids clk (clock_reads st) (length documents))
       \<and> length (generated_ids clk (clock_reads st) (length documents)) = length documents
       \<and> distinct (generated_ids clk (clock_reads st) (length documents))
       \<and> (\<forall>i < length documents. generated_ids clk (clock_reads st) (length documents) ! i
              = ''doc_'' @ str_nat i @ ''_'' @ timestamp clk (clock_reads st + i))
       \<and> calls (snd (add_documents eng clk st documents metadatas None))
           = calls st @ [Call_add documents (metadatas_sent clk st documents metadatas None)
                           (generated_ids clk (clock_reads st) (length documents))]"
proof (intro conjI)
  show "fst (add_documents eng clk st documents metadatas None)
           = Inr (generated_ids clk (clock_reads st) (length documents))"
    using assms by (simp add: add_documents_result)
  show "length (generated_ids clk (clock_reads st) (length documents)) = length documents"
    by (rule length_generated_ids)
  show "distinct (generated_ids clk (clock_reads st) (length documents))"
    by (rule distinct_generated_ids)
  show "\<forall>i < length documents. generated_ids clk (clock_reads st) (length documents) ! i
              = ''doc_'' @ str_nat i @ ''_'' @ timestamp clk (clock_reads st + i)"
    by (simp add: nth_generated_ids generated_id_def)
  show "calls (snd (add_documents eng clk st documents metadatas None))
           = calls st @ [Call_add documents (metadatas_sent clk st documents metadatas None)
                           (generated_ids clk (clock_reads st) (length documents))]"
    by (simp add: add_documents_calls)
qed

theorem add_documents_generated_ids_witness:
  "fst (add_documents (table_engine False :: (row list, string, nat) engine) test_clock
          (fresh_store []) [''alpha'', ''beta'', ''gamma''] None None)
     = Inr [''doc_0_1700000000.0'', ''doc_1_1700000000.1'', ''doc_2_1700000000.2'']
   \<and> distinct [''doc_0_1700000000.0'', ''doc_1_1700000000.1'', ''doc_2_1700000000.2'']"
  using add_documents_generated_ids [of "table_engine False :: (row list, string, nat) engine"
      "fresh_store []" "[''alpha'', ''beta'', ''gamma'']" test_clock None]
  by (simp add: table_engine_def table_add_def fresh_store_def generated_ids_def generated_id_def
      default_metadatas_def test_clock_def str_nat.simps digit_char_def)

section \<open>similarity\_search\<close>

lemma subscript_0: "xs \<noteq> [] \<Longrightarrow> subscript xs 0 = Inr (hd xs)"
  by (cases xs) (simp_all add: subscript_def)

lemma subscript_in_range: "i < length xs \<Longrightarrow> subscript xs i = Inr (xs ! i)"
  by (simp add: subscript_def)

lemma and_then_Inr [simp]: "and_then (Inr v) f = f v"
  by (simp add: and_then_def)

lemma format_distance_row_at:
  fixes results :: "'d query_result"
  assumes "rows_parallel results" and "i < length (hd (qr_ids results))"
    and "qr_distances results \<noteq> Some None"
  shows "(format_distance results i :: 'x error + 'd option)
           = Inr (case qr_distances results of Some (Some dss) \<Rightarrow> Some (hd dss ! i) | _ \<Rightarrow> None)"
proof (cases "qr_distances results")
  case None
  then show ?thesis by (simp add: format_distance_def)
next
  case (Some entry)
  with assms(3) obtain dss where e: "entry = Some dss" by (cases entry) auto
  with Some assms have "dss \<noteq> []" and "i < length (hd dss)"
    by (simp_all add: rows_parallel_def)
  with Some e show ?thesis
    by (simp add: format_distance_def subscript_0)
      (simp add: subscript_in_range)
qed

lemma format_entry_row_at:
  fixes results :: "'d query_result"
  assumes "rows_parallel results" and "i < length (hd (qr_ids results))"
    and "qr_distances results \<noteq> Some None"
  shows "(format_entry results i :: 'x error + 'd hit) = Inr (row_at results i)"
proof -
  from assms have ne: "qr_ids results \<noteq> []" "qr_documents results \<noteq> []" "qr_metadatas results \<noteq> []"
    and len: "i < length (hd (qr_documents results))" "i < length (hd (qr_metadatas results))"
    by (simp_all add: rows_parallel_def)
  show ?thesis
    unfolding format_entry_def
    by (simp add: subscript_0 ne)
      (simp add: subscript_in_range len assms(2) format_distance_row_at [OF assms] row_at_def)
qed


lemma format_results_rows:
  fixes results :: "'d query_result"
  assumes "\<forall>i \<in> set indices. (format_entry results i :: 'x error + 'd hit) = Inr (row_at results i)"
  shows "(format_results results indices formatted :: 'x error + 'd hit list)
           = Inr (formatted @ map (row_at results) indices)"
  using assms
  by (induction indices arbitrary: formatted) simp_all

lemma format_results_parallel:
  fixes results :: "'d query_result"
  assumes "rows_parallel results" and "qr_distances results \<noteq> Some None"
  shows "(format_results results [0..<length (hd (qr_ids results))] [] :: 'x error + 'd hit list)
           = Inr (map (row_at results) [0..<length (hd (qr_ids results))])"
proof -
  have "\<forall>i \<in> set [0..<length (hd (qr_ids results))].
          (format_entry results i :: 'x error + 'd hit) = Inr (row_at results i)"
    by (simp add: format_entry_row_at [OF assms(1) _ assms(2)])
  from format_results_rows [OF this] show ?thesis by simp
qed

lemma similarity_search_result:
  fixes eng :: "('e, 'x, 'd) engine"
  assumes "collection_query eng (collection_state st) [query] n_results metadata_filter = Inr results"
    and "rows_parallel results" and "qr_distances results \<noteq> Some None"
  shows "fst (similarity_search eng st query n_results metadata_filter)
           = Inr (map (row_at results) [0..<length (hd (qr_ids results))])"
proof -
  from assms(2) have ne: "qr_ids results \<noteq> []"
    by (simp add: rows_parallel_def)
  have f: "(format_results results [0..<length (hd (qr_ids results))] [] :: 'x error + 'd hit list)
           = Inr (map (row_at results) [0..<length (hd (qr_ids results))])"
    by (rule format_results_parallel [OF assms(2,3)])
  show ?thesis
    using assms(1) f
    by (simp add: similarity_search_def Let_def subscript_0 [OF ne])
qed


lemma map_row_at_fields:
  assumes "rows_parallel results"
  shows "map hit_id (map (row_at results) [0..<length (hd (qr_ids results))]) = hd (qr_ids results)"
    and "map hit_document (map (row_at results) [0..<length (hd (qr_ids results))]) = hd (qr_documents results)"
    and "map hit_metadata (map (row_at results) [0..<length (hd (qr_ids results))]) = hd (qr_metadatas results)"
proof -
  show "map hit_id (map (row_at results) [0..<length (hd (qr_ids results))]) = hd (qr_ids results)"
    by (simp add: row_at_def comp_def map_nth)
  from assms have l: "length (hd (qr_ids results)) = length (hd (qr_documents results))"
    "length (hd (qr_ids results)) = length (hd (qr_metadatas results))"
    by (simp_all add: rows_parallel_def)
  show "map hit_document (map (row_at results) [0..<length (hd (qr_ids results))]) = hd (qr_documents results)"
    unfolding l(1) by (simp add: row_at_def comp_def map_nth)
  show "map hit_metadata (map (row_at results) [0..<length (hd (qr_ids results))]) = hd (qr_metadatas results)"
    unfolding l(2) by (simp add: row_at_def comp_def map_nth)
qed

lemma map_row_at_distance_absent:
  assumes "qr_distances results = None"
  shows "map hit_distance (map (row_at results) indices) = replicate (length indices) None"
  using assms by (induction indices) (simp_all add: row_at_def)

lemma map_row_at_distance_present:
  assumes "rows_parallel results" and "qr_distances results = Some (Some dss)"
  shows "map hit_distance (map (row_at results) [0..<length (hd (qr_ids results))]) = map Some (hd dss)"
proof -
  from assms have l: "length (hd (qr_ids results)) = length (hd dss)"
    by (simp add: rows_parallel_def)
  have "map (\<lambda>i. Some (hd dss ! i)) [0..<length (hd dss)] = map Some (map (\<lambda>i. hd dss ! i) [0..<length (hd dss)])"
    by simp
  also have "\<dots> = map Some (hd dss)"
    by (simp only: map_nth)
  finally show ?thesis
    unfolding l using assms(2) by (simp add: row_at_def comp_def)
qed

lemma distances_of_present: "map hit_distance hits = map Some ds \<Longrightarrow> distances_of hits = ds"
  by (induction hits arbitrary: ds) auto

lemma distances_of_absent: "map hit_distance hits = replicate n None \<Longrightarrow> distances_of hits = []"
proof (induction hits arbitrary: n)
  case Nil
  then show ?case by simp
next
  case (Cons h hits)
  then obtain m where "n = Suc m" by (cases n) auto
  with Cons show ?case by auto
qed

lemmas similarity_search_run =
  similarity_search_def Let_def subscript_def and_then_def format_entry_def format_distance_def
  write_log_def record_call_def reraise_def fresh_store_def canned_engine_def

text \<open>
  What the store does with an answer of parallel sequences whose distances are missing
  as a key or supplied as lists: one entry per id, each with the four fields, the
  distance \<open>None\<close> for every entry when the key is missing.
\<close>

lemma similarity_search_answer_rows:
  fixes eng :: "('e, 'x, 'd) engine"
  assumes "collection_query eng (collection_state st) [query] n_results metadata_filter = Inr results"
    and "rows_parallel results" and "qr_distances results \<noteq> Some None"
  shows "\<exists>hits. fst (similarity_search eng st query n_results metadata_filter) = Inr hits
           \<and> map hit_id hits = hd (qr_ids results)
           \<and> map hit_document hits = hd (qr_documents results)
           \<and> map hit_metadata hits = hd (qr_metadatas results)
           \<and> (qr_distances results = None \<longrightarrow> map hit_distance hits = replicate (length hits) None)
           \<and> (\<forall>dss. qr_distances results = Some (Some dss) \<longrightarrow> map hit_distance hits = map Some (hd dss))"
proof -
  let ?hits = "map (row_at results) [0..<length (hd (qr_ids results))]"
  have r: "fst (similarity_search eng st query n_results metadata_filter) = Inr ?hits"
    by (rule similarity_search_result [OF assms])
  have f: "map hit_id ?hits = hd (qr_ids results)"
    "map hit_document ?hits = hd (qr_documents results)"
    "map hit_metadata ?hits = hd (qr_metadatas results)"
    by (rule map_row_at_fields [OF assms(2)])+
  have n: "qr_distances results = None \<longrightarrow> map hit_distance ?hits = replicate (length ?hits) None"
    using map_row_at_distance_absent [of results "[0..<length (hd (qr_ids results))]"] by simp
  have d: "\<forall>dss. qr_distances results = Some (Some dss) \<longrightarrow> map hit_distance ?hits = map Some (hd dss)"
    using map_row_at_distance_present [OF assms(2)] by blast
  show ?thesis
    by (rule exI [of _ ?hits]) (intro conjI r f n d)
qed



text \<open>
  The order of the returned list is the order of the engine's answer, for every engine:
  entry \<open>i\<close> carries the engine's i-th id and distance, so the list is sorted by
  non-decreasing distance exactly when the engine's distances for the query are.
\<close>

lemma similarity_search_order_of_answer:
  fixes eng :: "('e, 'x, 'd::linorder) engine"
  assumes "collection_query eng (collection_state st) [query] n_results metadata_filter = Inr results"
    and "rows_parallel results" and "qr_distances results = Some (Some dss)"
  shows "\<exists>hits. fst (similarity_search eng st query n_results metadata_filter) = Inr hits
           \<and> map hit_id hits = hd (qr_ids results)
           \<and> map hit_distance hits = map Some (hd dss)
           \<and> (sorted_by_distance hits \<longleftrightarrow> sorted (hd dss))"
proof -
  let ?hits = "map (row_at results) [0..<length (hd (qr_ids results))]"
  from assms(3) have nn: "qr_distances results \<noteq> Some None" by simp
  have r: "fst (similarity_search eng st query n_results metadata_filter) = Inr ?hits"
    by (rule similarity_search_result [OF assms(1,2) nn])
  have i: "map hit_id ?hits = hd (qr_ids results)"
    by (rule map_row_at_fields [OF assms(2)])
  have d: "map hit_distance ?hits = map Some (hd dss)"
    by (rule map_row_at_distance_present [OF assms(2,3)])
  have s: "sorted_by_distance ?hits \<longleftrightarrow> sorted (hd dss)"
    using distances_of_present [OF d] by (simp add: sorted_by_distance_def)
  show ?thesis
    by (rule exI [of _ ?hits]) (intro conjI r i d s)
qed

lemma index_query_single:
  "index_query dist c [query] n_results wh =
     Inr \<lparr>qr_ids = [map fst (nearest_rows dist c query n_results wh)],
          qr_documents = [map (\<lambda>r. fst (snd r)) (nearest_rows dist c query n_results wh)],
          qr_metadatas = [map (\<lambda>r. snd (snd r)) (nearest_rows dist c query n_results wh)],
          qr_distances = Some (Some [map (\<lambda>r. dist query (fst (snd r)))
                                      (nearest_rows dist c query n_results wh)])\<rparr>"
  by (simp add: index_query_def)

lemma sorted_nearest_rows:
  "sorted (map (\<lambda>r. dist query (fst (snd r))) (nearest_rows dist c query n_results wh))"
proof -
  let ?f = "\<lambda>r. dist query (fst (snd r))"
  have "sorted (map ?f (sort_key ?f (filter (row_matches wh) c)))"
    by (rule sorted_sort_key)
  then have "sorted (take (nat n_results) (map ?f (sort_key ?f (filter (row_matches wh) c))))"
    by (rule sorted_wrt_take)
  then show ?thesis
    by (simp add: nearest_rows_def take_map)
qed

text \<open>
  Claim C4. On the Vector Index Engine of the specification, every call of
  \<open>similarity_search\<close> returns a list sorted by non-decreasing distance: its entries
  are the engine's nearest rows in the engine's order, each with its distance from the
  query, and rows at the same distance stay in the order in which the engine stores
  them.
\<close>

theorem similarity_search_sorted_by_distance:
  fixes dist :: "string \<Rightarrow> string \<Rightarrow> 'd::linorder" and st :: "(row list, string) store"
  shows "\<exists>hits. fst (similarity_search (index_engine dist) st query n_results metadata_filter) = Inr hits
           \<and> sorted_by_distance hits
           \<and> map hit_id hits
               = map fst (nearest_rows dist (collection_state st) query n_results metadata_filter)
           \<and> map hit_distance hits
               = map (\<lambda>r. Some (dist query (fst (snd r))))
                   (nearest_rows dist (collection_state st) query n_results metadata_filter)
           \<and> (\<forall>k. filter (\<lambda>r. dist query (fst (snd r)) = k)
                     (sort_key (\<lambda>r. dist query (fst (snd r)))
                        (filter (row_matches metadata_filter) (collection_state st)))
                  = filter (\<lambda>r. dist query (fst (snd r)) = k)
                      (filter (row_matches metadata_filter) (collection_state st)))"
proof -
  let ?rows = "nearest_rows dist (collection_state st) query n_results metadata_filter"
  let ?ds = "map (\<lambda>r. dist query (fst (snd r))) ?rows"
  let ?answer = "\<lparr>qr_ids = [map fst ?rows], qr_documents = [map (\<lambda>r. fst (snd r)) ?rows],
      qr_metadatas = [map (\<lambda>r. snd (snd r)) ?rows], qr_distances = Some (Some [?ds])\<rparr>"
  have q: "collection_query (index_engine dist) (collection_state st) [query] n_results metadata_filter
             = Inr ?answer"
    by (simp add: index_engine_def index_query_single)
  have p: "rows_parallel ?answer"
    by (simp add: rows_parallel_def)
  have d: "qr_distances ?answer = Some (Some [?ds])"
    by simp
  from similarity_search_order_of_answer [OF q p d]
  obtain hits where h: "fst (similarity_search (index_engine dist) st query n_results metadata_filter) = Inr hits"
    and i: "map hit_id hits = map fst ?rows"
    and m: "map hit_distance hits = map Some ?ds"
    and s: "sorted_by_distance hits \<longleftrightarrow> sorted ?ds"
    by auto
  from s have s': "sorted_by_distance hits"
    by (simp add: sorted_nearest_rows)
  from m have m': "map hit_distance hits = map (\<lambda>r. Some (dist query (fst (snd r)))) ?rows"
    by (simp add: comp_def)
  have t: "\<forall>k. filter (\<lambda>r. dist query (fst (snd r)) = k)
                     (sort_key (\<lambda>r. dist query (fst (snd r)))
                        (filter (row_matches metadata_filter) (collection_state st)))
                  = filter (\<lambda>r. dist query (fst (snd r)) = k)
                      (filter (row_matches metadata_filter) (collection_state st))"
    by (simp only: sort_key_stable) simp
  show ?thesis
    by (rule exI [of _ hits]) (intro conjI h s' i m' t)
qed

theorem similarity_search_sorted_by_distance_witness:
  "fst (similarity_search (index_engine text_distance)
          (fresh_store [(''p1'', ''a long paper'', []), (''p2'', ''short'', []), (''p3'', ''brief'', [])])
          ''query'' 2 None)
     = Inr [\<lparr>hit_id = ''p2'', hit_document = ''short'', hit_metadata = [], hit_distance = Some 0\<rparr>,
            \<lparr>hit_id = ''p3'', hit_document = ''brief'', hit_metadata = [], hit_distance = Some 0\<rparr>]
   \<and> sorted_by_distance
       [\<lparr>hit_id = ''p2'', hit_document = ''short'', hit_metadata = [], hit_distance = Some (0::nat)\<rparr>,
        \<lparr>hit_id = ''p3'', hit_document = ''brief'', hit_metadata = [], hit_distance = Some 0\<rparr>]"
  using similarity_search_sorted_by_distance [of text_distance
      "fresh_store [(''p1'', ''a long paper'', []), (''p2'', ''short'', []), (''p3'', ''brief'', [])]"
      "''query''" 2 None]
  by (simp add: similarity_search_run index_engine_def index_query_def nearest_rows_def
      row_matches_def text_distance_def sorted_by_distance_def)

text \<open>
  Claim C7. When the engine finds no id for the query (the list of ids for the single
  query text is empty), \<open>similarity_search\<close> returns the empty list and raises nothing.
\<close>

theorem similarity_search_empty_collection:
  fixes eng :: "('e, 'x, 'd) engine"
  assumes "collection_query eng (collection_state st) [query] n_results metadata_filter = Inr results"
    and "qr_ids results \<noteq> []" and "hd (qr_ids results) = []"
  shows "fst (similarity_search eng st query n_results metadata_filter) = Inr []"
  using assms
  by (simp add: similarity_search_def Let_def subscript_0)

theorem similarity_search_empty_collection_witness:
  "collection_query (table_engine False :: (row list, string, int) engine)
       (collection_state (fresh_store [] :: (row list, string) store)) [''papers''] 5 None
     = Inr \<lparr>qr_ids = [[]], qr_documents = [[]], qr_metadatas = [[]], qr_distances = None\<rparr>
   \<and> fst (similarity_search (table_engine False :: (row list, string, int) engine)
          (fresh_store []) ''papers'' 5 None) = Inr []"
  using similarity_search_empty_collection [of "table_engine False :: (row list, string, int) engine"
      "fresh_store []" "''papers''" 5 None
      "\<lparr>qr_ids = [[]], qr_documents = [[]], qr_metadatas = [[]], qr_distances = None\<rparr>"]
  by (simp add: table_engine_def table_query_def answer_of_rows_def fresh_store_def)

section \<open>get\_document, delete\_documents, update\_document\<close>

lemmas store_defs = Let_def split_beta write_log_def record_call_def reraise_def

lemma similarity_search_failure:
  fixes eng :: "('e, 'x, 'd) engine"
  assumes "collection_query eng (collection_state st) [query] n_results metadata_filter = Inl x"
  shows "fst (similarity_search eng st query n_results metadata_filter) = Inl (EngineError x)"
    and "calls (snd (similarity_search eng st query n_results metadata_filter))
           = calls st @ [Call_query [query] n_results metadata_filter]"
    and "logs (snd (similarity_search eng st query n_results metadata_filter))
           = logs st @ [CliLogger_info ''Performing similarity search...'' ''search''
                          [(''query'', query), (''n_results'', str_int n_results)],
                        CliLogger_error ''Error performing similarity search: '' (Some (EngineError x)) '''',
                        Logger_error ''Error performing similarity search: '' (EngineError x)]"
  using assms by (simp_all add: similarity_search_def store_defs)

lemma delete_documents_result:
  "fst (delete_documents eng st ids)
     = (case fst (collection_delete eng (collection_state st) ids) of
          None \<Rightarrow> Inr () | Some x \<Rightarrow> Inl (EngineError x))"
  by (simp add: delete_documents_def store_defs split: option.splits)

lemma delete_documents_calls:
  "calls (snd (delete_documents eng st ids)) = calls st @ [Call_delete ids]"
  by (simp add: delete_documents_def store_defs split: option.splits)

lemma delete_documents_collection:
  "collection_state (snd (delete_documents eng st ids))
     = snd (collection_delete eng (collection_state st) ids)"
  by (simp add: delete_documents_def store_defs split: option.splits)

lemma delete_documents_logs_failure:
  assumes "fst (collection_delete eng (collection_state st) ids) = Some x"
  shows "logs (snd (delete_documents eng st ids))
           = logs st @ [CliLogger_info ''Deleting documents from vector store...'' ''delete''
                          [(''doc_count'', str_nat (length ids))],
                        CliLogger_error ''Error deleting documents: '' (Some (EngineError x)) '''',
                        Logger_error ''Error deleting documents: '' (EngineError x)]"
  using assms by (simp add: delete_documents_def store_defs)

lemma get_document_failure:
  assumes "collection_get eng (collection_state st) [doc_id] = Inl x"
  shows "fst (get_document eng st doc_id) = Inl (EngineError x)"
    and "logs (snd (get_document eng st doc_id))
           = logs st @ [CliLogger_info ''Retrieving document from vector store...'' ''retrieve''
                          [(''doc_id'', doc_id)],
                        CliLogger_error ''Error retrieving document: '' (Some (EngineError x)) '''',
                        Logger_error (''Error retrieving document '' @ doc_id @ '': '') (EngineError x)]"
  using assms by (simp_all add: get_document_def store_defs)

lemma get_document_calls:
  "calls (snd (get_document eng st doc_id)) = calls st @ [Call_get [doc_id]]"
  by (simp add: get_document_def store_defs split: sum.splits)

lemma get_document_absent:
  assumes "collection_get eng (collection_state st) [doc_id] = Inr result" and "gr_ids result = []"
  shows "fst (get_document eng st doc_id) = Inr None"
  using assms by (simp add: get_document_def store_defs)

lemma found_record_parallel:
  assumes "gr_ids result \<noteq> []" and "found_parallel result"
  shows "(found_record result :: 'x error + document_record)
           = Inr \<lparr>rec_id = hd (gr_ids result), rec_document = hd (gr_documents result),
                  rec_metadata = hd (gr_metadatas result)\<rparr>"
proof -
  from assms have "gr_documents result \<noteq> []" and "gr_metadatas result \<noteq> []"
    by (auto simp: found_parallel_def)
  with assms(1) show ?thesis
    by (simp add: found_record_def subscript_0)
qed

lemma get_document_present:
  fixes eng :: "('e, 'x, 'd) engine"
  assumes "collection_get eng (collection_state st) [doc_id] = Inr result"
    and "gr_ids result \<noteq> []" and "found_parallel result"
  shows "fst (get_document eng st doc_id)
           = Inr (Some \<lparr>rec_id = hd (gr_ids result), rec_document = hd (gr_documents result),
                         rec_metadata = hd (gr_metadatas result)\<rparr>)"
proof -
  have "(found_record result :: 'x error + document_record)
           = Inr \<lparr>rec_id = hd (gr_ids result), rec_document = hd (gr_documents result),
                  rec_metadata = hd (gr_metadatas result)\<rparr>"
    by (rule found_record_parallel [OF assms(2,3)])
  with assms(1,2) show ?thesis
    by (simp add: get_document_def store_defs)
qed

lemma update_document_result:
  "fst (update_document eng clk st doc_id document metadata)
     = (case fst (collection_update eng (collection_state st) [doc_id] [document]
                    [fst (resolve_metadata clk metadata st)]) of
          None \<Rightarrow> Inr () | Some x \<Rightarrow> Inl (EngineError x))"
  by (cases metadata) (simp_all add: update_document_def resolve_metadata_def store_defs split: option.splits)

lemma update_document_calls:
  "calls (snd (update_document eng clk st doc_id document metadata))
     = calls st @ [Call_update [doc_id] [document] [fst (resolve_metadata clk metadata st)]]"
  by (cases metadata) (simp_all add: update_document_def resolve_metadata_def store_defs split: option.splits)

lemma update_document_collection:
  "collection_state (snd (update_document eng clk st doc_id document metadata))
     = snd (collection_update eng (collection_state st) [doc_id] [document]
              [fst (resolve_metadata clk metadata st)])"
  by (cases metadata) (simp_all add: update_document_def resolve_metadata_def store_defs split: option.splits)

lemma update_document_logs_failure:
  assumes "fst (collection_update eng (collection_state st) [doc_id] [document]
                    [fst (resolve_metadata clk metadata st)]) = Some x"
  shows "logs (snd (update_document eng clk st doc_id document metadata))
           = logs st @ [CliLogger_info ''Updating document in vector store...'' ''update''
                          [(''doc_id'', doc_id)],
                        CliLogger_error ''Error updating document: '' (Some (EngineError x)) '''',
                        Logger_error (''Error updating document '' @ doc_id @ '': '') (EngineError x)]"
  using assms
  by (cases metadata) (simp_all add: update_document_def resolve_metadata_def store_defs)

lemma resolve_metadata_None [simp]:
  "fst (resolve_metadata clk None st) = [(''updated_at'', isoformat clk (clock_reads st))]"
  by (simp add: resolve_metadata_def)

lemmas table_run =
  table_engine_def table_add_def table_query_def table_delete_def table_get_def table_update_def
  update_row_def merge_metadata_def fresh_store_def test_clock_def str_nat.simps digit_char_def

text \<open>
  Claim C6. \<open>get_document\<close> returns \<open>None\<close>, and raises nothing, when the engine
  finds no id; when the engine finds the id it returns the record made of the first id,
  text and metadata of the engine's answer; and when the engine's lookup raises, that
  exception is what the call raises. With answers of parallel sequences these are all
  the cases, so only a failure of the engine makes the call raise.
\<close>

theorem get_document_outcomes:
  fixes eng :: "('e, 'x, 'd) engine"
  shows "(\<forall>result. collection_get eng (collection_state st) [doc_id] = Inr result \<and> gr_ids result = []
            \<longrightarrow> fst (get_document eng st doc_id) = Inr None)
       \<and> (\<forall>result. collection_get eng (collection_state st) [doc_id] = Inr result
              \<and> gr_ids result \<noteq> [] \<and> found_parallel result
            \<longrightarrow> fst (get_document eng st doc_id)
                  = Inr (Some \<lparr>rec_id = hd (gr_ids result), rec_document = hd (gr_documents result),
                                rec_metadata = hd (gr_metadatas result)\<rparr>))
       \<and> (\<forall>x. collection_get eng (collection_state st) [doc_id] = Inl x
            \<longrightarrow> fst (get_document eng st doc_id) = Inl (EngineError x))"
proof (intro conjI allI impI)
  fix result
  assume "collection_get eng (collection_state st) [doc_id] = Inr result \<and> gr_ids result = []"
  then show "fst (get_document eng st doc_id) = Inr None"
    by (simp add: get_document_absent)
next
  fix result
  assume "collection_get eng (collection_state st) [doc_id] = Inr result
              \<and> gr_ids result \<noteq> [] \<and> found_parallel result"
  then show "fst (get_document eng st doc_id)
                  = Inr (Some \<lparr>rec_id = hd (gr_ids result), rec_document = hd (gr_documents result),
                                rec_metadata = hd (gr_metadatas result)\<rparr>)"
    by (simp add: get_document_present)
next
  fix x
  assume "collection_get eng (collection_state st) [doc_id] = Inl x"
  then show "fst (get_document eng st doc_id) = Inl (EngineError x)"
    by (rule get_document_failure)
qed

theorem get_document_outcomes_witness:
  "fst (get_document (table_engine False :: (row list, string, int) engine)
          (fresh_store [(''p1'', ''first paper'', [(''year'', ''2020'')])]) ''p1'')
     = Inr (Some \<lparr>rec_id = ''p1'', rec_document = ''first paper'', rec_metadata = [(''year'', ''2020'')]\<rparr>)
   \<and> fst (get_document (table_engine False :: (row list, string, int) engine)
          (fresh_store [(''p1'', ''first paper'', [(''year'', ''2020'')])]) ''p9'')
     = Inr None
   \<and> fst (get_document (failing_engine ''connection lost'' :: (unit, string, int) engine)
          (fresh_store ()) ''p1'')
     = Inl (EngineError ''connection lost'')"
  using get_document_outcomes [of "table_engine False :: (row list, string, int) engine"
      "fresh_store [(''p1'', ''first paper'', [(''year'', ''2020'')])]" "''p1''"]
    get_document_outcomes [of "table_engine False :: (row list, string, int) engine"
      "fresh_store [(''p1'', ''first paper'', [(''year'', ''2020'')])]" "''p9''"]
    get_document_outcomes [of "failing_engine ''connection lost'' :: (unit, string, int) engine"
      "fresh_store ()" "''p1''"]
  by (simp add: table_run failing_engine_def found_parallel_def)

text \<open>
  What the store does around a delete, for every engine: when the engine's \<open>delete\<close>
  of the id raises nothing and the engine then finds nothing under the id, the delete
  succeeds after one call with exactly that id and the lookup returns \<open>None\<close>.
\<close>

lemma delete_documents_then_get:
  fixes eng :: "('e, 'x, 'd) engine"
  assumes "collection_delete eng (collection_state st) [doc_id] = (None, c')"
    and "collection_get eng c' [doc_id] = Inr result" and "gr_ids result = []"
  shows "fst (delete_documents eng st [doc_id]) = Inr ()
       \<and> calls (snd (delete_documents eng st [doc_id])) = calls st @ [Call_delete [doc_id]]
       \<and> fst (get_document eng (snd (delete_documents eng st [doc_id])) doc_id) = Inr None"
proof (intro conjI)
  show "fst (delete_documents eng st [doc_id]) = Inr ()"
    using assms(1) by (simp add: delete_documents_result)
  show "calls (snd (delete_documents eng st [doc_id])) = calls st @ [Call_delete [doc_id]]"
    by (rule delete_documents_calls)
  have "collection_state (snd (delete_documents eng st [doc_id])) = c'"
    using assms(1) by (simp add: delete_documents_collection)
  with assms(2,3) show "fst (get_document eng (snd (delete_documents eng st [doc_id])) doc_id) = Inr None"
    by (simp add: get_document_absent)
qed

lemma filter_deleted_id:
  "filter (\<lambda>r. fst r \<in> set [i]) (filter (\<lambda>r. fst r \<notin> set [i]) c) = []"
  by (induction c) auto

lemma index_get_after_delete:
  "index_get (snd (index_delete c [i])) [i] = Inr \<lparr>gr_ids = [], gr_documents = [], gr_metadatas = []\<rparr>"
  by (simp only: index_get_def index_delete_def snd_conv filter_deleted_id) simp

lemma filter_stored_id:
  assumes "i \<in> fst ` set c"
  shows "filter (\<lambda>r. fst r \<in> set [i]) c \<noteq> []"
    and "fst (hd (filter (\<lambda>r. fst r \<in> set [i]) c)) = i"
proof -
  from assms obtain r where "r \<in> set c" and "fst r = i" by auto
  then show ne: "filter (\<lambda>r. fst r \<in> set [i]) c \<noteq> []"
    by (auto simp: filter_empty_conv)
  then have "hd (filter (\<lambda>r. fst r \<in> set [i]) c) \<in> set (filter (\<lambda>r. fst r \<in> set [i]) c)"
    by (rule hd_in_set)
  then show "fst (hd (filter (\<lambda>r. fst r \<in> set [i]) c)) = i" by simp
qed

lemma index_engine_get_stored:
  fixes dist :: "string \<Rightarrow> string \<Rightarrow> 'd::linorder" and st :: "(row list, string) store"
  assumes "doc_id \<in> fst ` set (collection_state st)"
  shows "\<exists>r. fst (get_document (index_engine dist) st doc_id) = Inr (Some r) \<and> rec_id r = doc_id"
proof -
  let ?rows = "filter (\<lambda>r. fst r \<in> set [doc_id]) (collection_state st)"
  let ?result = "\<lparr>gr_ids = map fst ?rows, gr_documents = map (\<lambda>r. fst (snd r)) ?rows,
                   gr_metadatas = map (\<lambda>r. snd (snd r)) ?rows\<rparr>"
  have g: "collection_get (index_engine dist) (collection_state st) [doc_id] = Inr ?result"
    by (simp add: index_engine_def index_get_def)
  have ne: "gr_ids ?result \<noteq> []"
    using filter_stored_id(1) [OF assms] by simp
  have p: "found_parallel ?result"
    by (simp add: found_parallel_def)
  have h: "hd (gr_ids ?result) = doc_id"
    using filter_stored_id [OF assms] by (simp add: hd_map)
  from get_document_present [OF g ne p] h show ?thesis
    by simp
qed

text \<open>
  Claim C9. On the Vector Index Engine of the specification, for every id stored in the
  collection: \<open>get_document\<close> finds it, \<open>delete_documents [id]\<close> succeeds after one
  call of the engine with exactly that id, and \<open>get_document\<close> on the store it leaves
  returns \<open>None\<close>.
\<close>

theorem delete_then_get_absent:
  fixes dist :: "string \<Rightarrow> string \<Rightarrow> 'd::linorder" and st :: "(row list, string) store"
  assumes "doc_id \<in> fst ` set (collection_state st)"
  shows "(\<exists>r. fst (get_document (index_engine dist) st doc_id) = Inr (Some r) \<and> rec_id r = doc_id)
       \<and> fst (delete_documents (index_engine dist) st [doc_id]) = Inr ()
       \<and> calls (snd (delete_documents (index_engine dist) st [doc_id])) = calls st @ [Call_delete [doc_id]]
       \<and> fst (get_document (index_engine dist)
                (snd (delete_documents (index_engine dist) st [doc_id])) doc_id) = Inr None"
proof -
  let ?c' = "snd (index_delete (collection_state st) [doc_id])"
  have d: "collection_delete (index_engine dist) (collection_state st) [doc_id] = (None, ?c')"
    by (simp add: index_engine_def index_delete_def)
  have g: "collection_get (index_engine dist) ?c' [doc_id]
             = Inr \<lparr>gr_ids = [], gr_documents = [], gr_metadatas = []\<rparr>"
    by (simp only: index_engine_def engine.simps index_get_after_delete)
  have a: "fst (delete_documents (index_engine dist) st [doc_id]) = Inr ()
       \<and> calls (snd (delete_documents (index_engine dist) st [doc_id])) = calls st @ [Call_delete [doc_id]]
       \<and> fst (get_document (index_engine dist)
                (snd (delete_documents (index_engine dist) st [doc_id])) doc_id) = Inr None"
    by (rule delete_documents_then_get [OF d g]) simp
  from index_engine_get_stored [OF assms, of dist] a show ?thesis
    by blast
qed

theorem delete_then_get_absent_witness:
  "''p1'' \<in> fst ` set (collection_state
       (fresh_store [(''p1'', ''first paper'', []), (''p2'', ''second paper'', [])] :: (row list, string) store))
   \<and> fst (get_document (index_engine text_distance)
          (fresh_store [(''p1'', ''first paper'', []), (''p2'', ''second paper'', [])]) ''p1'')
     = Inr (Some \<lparr>rec_id = ''p1'', rec_document = ''first paper'', rec_metadata = []\<rparr>)
   \<and> fst (delete_documents (index_engine text_distance)
          (fresh_store [(''p1'', ''first paper'', []), (''p2'', ''second paper'', [])]) [''p1''])
     = Inr ()
   \<and> fst (get_document (index_engine text_distance)
          (snd (delete_documents (index_engine text_distance)
             (fresh_store [(''p1'', ''first paper'', []), (''p2'', ''second paper'', [])]) [''p1'']))
          ''p1'')
     = Inr None"
proof -
  let ?st = "fresh_store [(''p1'', ''first paper'', []), (''p2'', ''second paper'', [])] :: (row list, string) store"
  have m: "''p1'' \<in> fst ` set (collection_state ?st)"
    by (simp add: fresh_store_def)
  have p: "fst (get_document (index_engine text_distance) ?st ''p1'')
     = Inr (Some \<lparr>rec_id = ''p1'', rec_document = ''first paper'', rec_metadata = []\<rparr>)"
    by (simp add: index_engine_def index_get_def fresh_store_def get_document_def store_defs
        found_record_def subscript_def and_then_def)
  from delete_then_get_absent [OF m, of text_distance] m p show ?thesis
    by simp
qed

text \<open>
  Claim C5, as amended. With \<open>metadata\<close> omitted, \<open>update_document\<close> calls the engine's
  \<open>update\<close> once for the id, with the new text and a metadata dictionary whose only key
  is \<open>updated_at\<close>; it reads and merges nothing itself. When the engine's update
  overwrites the stored text and metadata with what it received, a following
  \<open>get_document\<close> returns the new text and that single-key dictionary. What becomes of
  the previous fields is the engine's doing.
\<close>

theorem update_document_default_metadata:
  fixes eng :: "('e, 'x, 'd) engine"
  shows "calls (snd (update_document eng clk st doc_id document None))
           = calls st @ [Call_update [doc_id] [document]
                           [[(''updated_at'', isoformat clk (clock_reads st))]]]
       \<and> (\<forall>c'. collection_update eng (collection_state st) [doc_id] [document]
                  [[(''updated_at'', isoformat clk (clock_reads st))]] = (None, c')
               \<and> collection_get eng c' [doc_id]
                   = Inr \<lparr>gr_ids = [doc_id], gr_documents = [document],
                          gr_metadatas = [[(''updated_at'', isoformat clk (clock_reads st))]]\<rparr>
            \<longrightarrow> fst (update_document eng clk st doc_id document None) = Inr ()
               \<and> fst (get_document eng (snd (update_document eng clk st doc_id document None)) doc_id)
                   = Inr (Some \<lparr>rec_id = doc_id, rec_document = document,
                                 rec_metadata = [(''updated_at'', isoformat clk (clock_reads st))]\<rparr>))"
proof (intro conjI allI impI)
  show "calls (snd (update_document eng clk st doc_id document None))
           = calls st @ [Call_update [doc_id] [document]
                           [[(''updated_at'', isoformat clk (clock_reads st))]]]"
    by (simp add: update_document_calls)
next
  fix c'
  assume h: "collection_update eng (collection_state st) [doc_id] [document]
                  [[(''updated_at'', isoformat clk (clock_reads st))]] = (None, c')
               \<and> collection_get eng c' [doc_id]
                   = Inr \<lparr>gr_ids = [doc_id], gr_documents = [document],
                          gr_metadatas = [[(''updated_at'', isoformat clk (clock_reads st))]]\<rparr>"
  then show "fst (update_document eng clk st doc_id document None) = Inr ()"
    by (simp add: update_document_result)
  from h have "collection_state (snd (update_document eng clk st doc_id document None)) = c'"
    by (simp add: update_document_collection)
  with h show "fst (get_document eng (snd (update_document eng clk st doc_id document None)) doc_id)
                   = Inr (Some \<lparr>rec_id = doc_id, rec_document = document,
                                 rec_metadata = [(''updated_at'', isoformat clk (clock_reads st))]\<rparr>)"
    using get_document_present [of eng "snd (update_document eng clk st doc_id document None)" doc_id
        "\<lparr>gr_ids = [doc_id], gr_documents = [document],
                          gr_metadatas = [[(''updated_at'', isoformat clk (clock_reads st))]]\<rparr>"]
    by (simp add: found_parallel_def)
qed

theorem update_document_default_metadata_witness:
  "fst (get_document (table_engine False :: (row list, string, int) engine)
          (snd (update_document (table_engine False :: (row list, string, int) engine) test_clock
             (fresh_store [(''p1'', ''old text'', [(''author'', ''Ada'')])]) ''p1'' ''new text'' None))
          ''p1'')
     = Inr (Some \<lparr>rec_id = ''p1'', rec_document = ''new text'',
                   rec_metadata = [(''updated_at'', ''2023-11-14T22:13:20.0'')]\<rparr>)"
  using update_document_default_metadata [of "table_engine False :: (row list, string, int) engine"
      test_clock "fresh_store [(''p1'', ''old text'', [(''author'', ''Ada'')])]" "''p1''" "''new text''"]
  by (simp add: table_run)

theorem update_document_merging_engine_counterexample:
  "fst (get_document (table_engine True :: (row list, string, int) engine)
          (snd (update_document (table_engine True :: (row list, string, int) engine) test_clock
             (fresh_store [(''p1'', ''old text'', [(''author'', ''Ada'')])]) ''p1'' ''new text'' None))
          ''p1'')
     = Inr (Some \<lparr>rec_id = ''p1'', rec_document = ''new text'',
                   rec_metadata = [(''author'', ''Ada''), (''updated_at'', ''2023-11-14T22:13:20.0'')]\<rparr>)
   \<and> [(''author'', ''Ada''), (''updated_at'', ''2023-11-14T22:13:20.0'')]
       \<noteq> [(''updated_at'', ''2023-11-14T22:13:20.0'')]"
  by (simp add: table_run update_document_def get_document_def resolve_metadata_def store_defs
      found_record_def subscript_def and_then_def)

section \<open>Failures of the engine\<close>

text \<open>
  Claim C8. In each of the five methods, when the call on the collection raises, the
  method raises that same exception: it does not return a value, it has called the
  engine exactly once, and it has written the two error lines with the exception after
  its opening line.
\<close>

theorem engine_failure_is_logged_and_reraised:
  fixes eng :: "('e, 'x, 'd) engine"
  shows "(fst (collection_add eng (collection_state st) documents
                (metadatas_sent clk st documents metadatas ids) (ids_sent clk st documents ids)) = Some x
          \<longrightarrow> fst (add_documents eng clk st documents metadatas ids) = Inl (EngineError x)
            \<and> calls (snd (add_documents eng clk st documents metadatas ids))
                = calls st @ [Call_add documents (metadatas_sent clk st documents metadatas ids)
                                (ids_sent clk st documents ids)]
            \<and> logs (snd (add_documents eng clk st documents metadatas ids))
                = logs st @ [CliLogger_info ''Adding documents to vector store...'' ''upload''
                               [(''doc_count'', str_nat (length documents))],
                             CliLogger_error ''Error adding documents: '' (Some (EngineError x)) '''',
                             Logger_error ''Error adding documents to ChromaDB: '' (EngineError x)])
       \<and> (collection_query eng (collection_state st) [query] n_results metadata_filter = Inl x
          \<longrightarrow> fst (similarity_search eng st query n_results metadata_filter) = Inl (EngineError x)
            \<and> calls (snd (similarity_search eng st query n_results metadata_filter))
                = calls st @ [Call_query [query] n_results metadata_filter]
            \<and> logs (snd (similarity_search eng st query n_results metadata_filter))
                = logs st @ [CliLogger_info ''Performing similarity search...'' ''search''
                               [(''query'', query), (''n_results'', str_int n_results)],
                             CliLogger_error ''Error performing similarity search: ''
                               (Some (EngineError x)) '''',
                             Logger_error ''Error performing similarity search: '' (EngineError x)])
       \<and> (fst (collection_delete eng (collection_state st) ids_to_delete) = Some x
          \<longrightarrow> fst (delete_documents eng st ids_to_delete) = Inl (EngineError x)
            \<and> calls (snd (delete_documents eng st ids_to_delete)) = calls st @ [Call_delete ids_to_delete]
            \<and> logs (snd (delete_documents eng st ids_to_delete))
                = logs st @ [CliLogger_info ''Deleting documents from vector store...'' ''delete''
                               [(''doc_count'', str_nat (length ids_to_delete))],
                             CliLogger_error ''Error deleting documents: '' (Some (EngineError x)) '''',
                             Logger_error ''Error deleting documents: '' (EngineError x)])
       \<and> (collection_get eng (collection_state st) [doc_id] = Inl x
          \<longrightarrow> fst (get_document eng st doc_id) = Inl (EngineError x)
            \<and> calls (snd (get_document eng st doc_id)) = calls st @ [Call_get [doc_id]]
            \<and> logs (snd (get_document eng st doc_id))
                = logs st @ [CliLogger_info ''Retrieving document from vector store...'' ''retrieve''
                               [(''doc_id'', doc_id)],
                             CliLogger_error ''Error retrieving document: '' (Some (EngineError x)) '''',
                             Logger_error (''Error retrieving document '' @ doc_id @ '': '')
                               (EngineError x)])
       \<and> (fst (collection_update eng (collection_state st) [doc_id] [document]
                [fst (resolve_metadata clk metadata st)]) = Some x
          \<longrightarrow> fst (update_document eng clk st doc_id document metadata) = Inl (EngineError x)
            \<and> calls (snd (update_document eng clk st doc_id document metadata))
                = calls st @ [Call_update [doc_id] [document] [fst (resolve_metadata clk metadata st)]]
            \<and> logs (snd (update_document eng clk st doc_id document metadata))
                = logs st @ [CliLogger_info ''Updating document in vector store...'' ''update''
                               [(''doc_id'', doc_id)],
                             CliLogger_error ''Error updating document: '' (Some (EngineError x)) '''',
                             Logger_error (''Error updating document '' @ doc_id @ '': '')
                               (EngineError x)])"
proof (intro conjI impI)
  assume a: "fst (collection_add eng (collection_state st) documents
                (metadatas_sent clk st documents metadatas ids) (ids_sent clk st documents ids)) = Some x"
  then show "fst (add_documents eng clk st documents metadatas ids) = Inl (EngineError x)"
    by (simp add: add_documents_result)
  show "calls (snd (add_documents eng clk st documents metadatas ids))
          = calls st @ [Call_add documents (metadatas_sent clk st documents metadatas ids)
                          (ids_sent clk st documents ids)]"
    by (rule add_documents_calls)
  from a show "logs (snd (add_documents eng clk st documents metadatas ids))
          = logs st @ [CliLogger_info ''Adding documents to vector store...'' ''upload''
                         [(''doc_count'', str_nat (length documents))],
                       CliLogger_error ''Error adding documents: '' (Some (EngineError x)) '''',
                       Logger_error ''Error adding documents to ChromaDB: '' (EngineError x)]"
    by (rule add_documents_logs_failure)
next
  assume q: "collection_query eng (collection_state st) [query] n_results metadata_filter = Inl x"
  then show "fst (similarity_search eng st query n_results metadata_filter) = Inl (EngineError x)"
    by (rule similarity_search_failure)
  from q show "calls (snd (similarity_search eng st query n_results metadata_filter))
          = calls st @ [Call_query [query] n_results metadata_filter]"
    by (rule similarity_search_failure)
  from q show "logs (snd (similarity_search eng st query n_results metadata_filter))
          = logs st @ [CliLogger_info ''Performing similarity search...'' ''search''
                         [(''query'', query), (''n_results'', str_int n_results)],
                       CliLogger_error ''Error performing similarity search: ''
                         (Some (EngineError x)) '''',
                       Logger_error ''Error performing similarity search: '' (EngineError x)]"
    by (rule similarity_search_failure)
next
  assume d: "fst (collection_delete eng (collection_state st) ids_to_delete) = Some x"
  then show "fst (delete_documents eng st ids_to_delete) = Inl (EngineError x)"
    by (simp add: delete_documents_result)
  show "calls (snd (delete_documents eng st ids_to_delete)) = calls st @ [Call_delete ids_to_delete]"
    by (rule delete_documents_calls)
  from d show "logs (snd (delete_documents eng st ids_to_delete))
          = logs st @ [CliLogger_info ''Deleting documents from vector store...'' ''delete''
                         [(''doc_count'', str_nat (length ids_to_delete))],
                       CliLogger_error ''Error deleting documents: '' (Some (EngineError x)) '''',
                       Logger_error ''Error deleting documents: '' (EngineError x)]"
    by (rule delete_documents_logs_failure)
next
  assume g: "collection_get eng (collection_state st) [doc_id] = Inl x"
  then show "fst (get_document eng st doc_id) = Inl (EngineError x)"
    by (rule get_document_failure)
  show "calls (snd (get_document eng st doc_id)) = calls st @ [Call_get [doc_id]]"
    by (rule get_document_calls)
  from g show "logs (snd (get_document eng st doc_id))
          = logs st @ [CliLogger_info ''Retrieving document from vector store...'' ''retrieve''
                         [(''doc_id'', doc_id)],
                       CliLogger_error ''Error retrieving document: '' (Some (EngineError x)) '''',
                       Logger_error (''Error retrieving document '' @ doc_id @ '': '')
                         (EngineError x)]"
    by (rule get_document_failure)
next
  assume u: "fst (collection_update eng (collection_state st) [doc_id] [document]
                [fst (resolve_metadata clk metadata st)]) = Some x"
  then show "fst (update_document eng clk st doc_id document metadata) = Inl (EngineError x)"
    by (simp add: update_document_result)
  show "calls (snd (update_document eng clk st doc_id document metadata))
          = calls st @ [Call_update [doc_id] [document] [fst (resolve_metadata clk metadata st)]]"
    by (rule update_document_calls)
  from u show "logs (snd (update_document eng clk st doc_id document metadata))
          = logs st @ [CliLogger_info ''Updating document in vector store...'' ''update''
                         [(''doc_id'', doc_id)],
                       CliLogger_error ''Error updating document: '' (Some (EngineError x)) '''',
                       Logger_error (''Error updating document '' @ doc_id @ '': '')
                         (EngineError x)]"
    by (rule update_document_logs_failure)
qed

theorem engine_failure_is_logged_and_reraised_witness:
  "fst (add_documents (failing_engine ''connection lost'' :: (unit, string, int) engine) test_clock
          (fresh_store ()) [''text''] (Some [[]]) (Some [''p1'']))
     = Inl (EngineError ''connection lost'')
   \<and> fst (similarity_search (failing_engine ''connection lost'' :: (unit, string, int) engine)
          (fresh_store ()) ''papers'' 5 None)
     = Inl (EngineError ''connection lost'')
   \<and> fst (delete_documents (failing_engine ''connection lost'' :: (unit, string, int) engine)
          (fresh_store ()) [''p1''])
     = Inl (EngineError ''connection lost'')
   \<and> fst (get_document (failing_engine ''connection lost'' :: (unit, string, int) engine)
          (fresh_store ()) ''p1'')
     = Inl (EngineError ''connection lost'')
   \<and> fst (update_document (failing_engine ''connection lost'' :: (unit, string, int) engine) test_clock
          (fresh_store ()) ''p1'' ''text'' (Some []))
     = Inl (EngineError ''connection lost'')
   \<and> calls (snd (get_document (failing_engine ''connection lost'' :: (unit, string, int) engine)
          (fresh_store ()) ''p1''))
     = [Call_get [''p1'']]
   \<and> logs (snd (get_document (failing_engine ''connection lost'' :: (unit, string, int) engine)
          (fresh_store ()) ''p1''))
     = [CliLogger_info ''Retrieving document from vector store...'' ''retrieve'' [(''doc_id'', ''p1'')],
        CliLogger_error ''Error retrieving document: '' (Some (EngineError ''connection lost'')) '''',
        Logger_error ''Error retrieving document p1: '' (EngineError ''connection lost'')]"
  using engine_failure_is_logged_and_reraised [of
      "failing_engine ''connection lost'' :: (unit, string, int) engine" "fresh_store ()"
      "[''text'']" test_clock "Some [[]]" "Some [''p1'']" "''connection lost''" "''papers''" 5 None
      "[''p1'']" "''p1''" "''text''" "Some []"]
  by (simp add: failing_engine_def fresh_store_def resolve_metadata_def metadatas_sent_def
      resolve_metadatas_def resolve_ids_def)

end
